theory Spec2Isabelle
  imports Complex_Main
begin

section \<open>Data model of \<open>MulticopterNLIBSControl\<close>\<close>

text \<open>
  The controller class of \<open>mc_nlibs_control_main.cpp\<close>. A C++ \<open>float\<close> is modelled as a
  \<open>real\<close>: the routines defined in the source (the constructor and the parameter
  refresh) only copy parameter values, they do no arithmetic on them. The two routines
  modelled further down from the specification compute over the reals; rounding is
  outside the model.

  \<open>math::Vector<3>\<close> is a triple, \<open>math::Matrix<M, N>\<close> is the map from a row and a column
  index to the entry, as \<open>operator()(row, col)\<close> reads and writes it.
\<close>

type_synonym vector3 = "real \<times> real \<times> real"

type_synonym matrix = "nat \<Rightarrow> nat \<Rightarrow> real"

definition zero_v :: vector3 where
  "zero_v = (0, 0, 0)"

definition zero_m :: matrix where
  "zero_m = (\<lambda>i j. 0)"

definition set_entry :: "matrix \<Rightarrow> nat \<Rightarrow> nat \<Rightarrow> real \<Rightarrow> matrix" where
  "set_entry m i j v = m(i := (m i)(j := v))"

text \<open>
  The anonymous struct \<open>_params_handles\<close> (lines 175-221), one \<open>param_t\<close> per field. The
  handle type \<open>'h\<close> is left open: \<open>param_t\<close> belongs to the parameter library, which is
  not part of the source. Field names carry the suffix \<open>_h\<close> because the struct \<open>_params\<close>
  has fields of the same names. The source spells one field \<open>q_rotor _root_angle\<close>
  (with a blank); it is read here as \<open>q_rotor_root_angle\<close>.
\<close>

record 'h param_handles =
  q_mass_h :: 'h
  q_ix_moment_h :: 'h
  q_iy_moment_h :: 'h
  q_iz_moment_h :: 'h
  q_arm_length_h :: 'h
  q_drag_coeff_h :: 'h
  q_xlin_drag_h :: 'h
  q_ylin_drag_h :: 'h
  q_zlin_drag_h :: 'h
  q_xrot_drag_h :: 'h
  q_yrot_drag_h :: 'h
  q_zrot_drag_h :: 'h
  q_rotor_radius_h :: 'h
  q_rotor_twist_angle_h :: 'h
  q_rotor_root_angle_h :: 'h
  q_motor_cst_h :: 'h
  thr_min_h :: 'h
  thr_max_h :: 'h
  x_gain_h :: 'h
  y_gain_h :: 'h
  x_vel_gain_h :: 'h
  y_vel_gain_h :: 'h
  phi_gain_h :: 'h
  theta_gain_h :: 'h
  phi_vel_gain_h :: 'h
  theta_vel_gain_h :: 'h
  psi_gain_h :: 'h
  z_gain_h :: 'h
  psi_vel_gain_h :: 'h
  z_vel_gain_h :: 'h
  f1_gain_h :: 'h
  f2_gain_h :: 'h
  f3_gain_h :: 'h
  f4_gain_h :: 'h
  xy_vel_max_h :: 'h
  xy_ff_h :: 'h
  tilt_max_air_h :: 'h
  tilt_max_land_h :: 'h
  land_speed_h :: 'h
  man_roll_max_h :: 'h
  man_pitch_max_h :: 'h
  man_yaw_max_h :: 'h

text \<open>The anonymous struct \<open>_params\<close> (lines 223-264), the cached parameter values.\<close>

record param_cache =
  q_mass :: real
  q_ix_moment :: real
  q_iy_moment :: real
  q_iz_moment :: real
  q_arm_length :: real
  q_drag_coeff :: real
  q_xlin_drag :: real
  q_ylin_drag :: real
  q_zlin_drag :: real
  q_xrot_drag :: real
  q_yrot_drag :: real
  q_zrot_drag :: real
  q_rotor_radius :: real
  q_rotor_twist_angle :: real
  q_rotor_root_angle :: real
  q_motor_cst :: real
  thr_min :: real
  thr_max :: real
  tilt_max_air :: real
  land_speed :: real
  tilt_max_land :: real
  man_roll_max :: real
  man_pitch_max :: real
  man_yaw_max :: real
  yaw_ff :: real
  roll_rate_max :: real
  pitch_rate_max :: real
  yaw_rate_max :: real
  nlibs_rate_max :: vector3
  A1_gain :: matrix
  A2_gain :: matrix
  A3_gain :: matrix
  A4_gain :: matrix
  A5_gain :: matrix
  A6_gain :: matrix
  A7_gain :: matrix

text \<open>
  The members of the class that the constructor initialises in its body, with the two
  parameter structs. The subscription and publication handles and the uORB topic
  structs that the constructor sets to \<open>-1\<close> or clears with \<open>memset\<close> have types declared
  outside the source and play no part below; they are left out. The reset flags,
  \<open>_mode_auto\<close> and \<open>_thrust_sp\<close> are members that the constructor does not initialise.
\<close>

record 'h controller =
  actuators_0_circuit_breaker_enabled :: bool
  params_handles :: "'h param_handles"
  params :: param_cache
  reset_pos_sp :: bool
  reset_alt_sp :: bool
  reset_att_sp :: bool
  reset_yaw_s :: bool
  mode_auto :: bool
  pos :: vector3
  pos_sp :: vector3
  vel :: vector3
  vel_sp :: vector3
  vel_prev :: vector3
  vel_ff :: vector3
  sp_move_rate :: vector3
  rates_prev :: vector3
  rates_sp :: vector3
  rates_int :: vector3
  att_control :: vector3
  thrust_sp :: real

section \<open>The parameter store\<close>

text \<open>
  \<open>param_find\<close> and \<open>param_get\<close> belong to the parameter library
  (\<open>systemlib/param/param.h\<close>), which is outside the source, so both are parameters of
  the model: \<open>pfind :: string \<Rightarrow> 'h\<close> gives the handle of a name, and
  \<open>pget :: 'h \<Rightarrow> real option\<close> is the store as \<open>param_get\<close> sees it, \<open>None\<close> where the
  call fails. \<open>param_get (handle, &dest)\<close> writes the stored value to \<open>dest\<close> and leaves
  \<open>dest\<close> as it was when it fails; the source ignores its return value.
\<close>

definition param_get :: "('h \<Rightarrow> real option) \<Rightarrow> 'h \<Rightarrow> real \<Rightarrow> real" where
  "param_get pget h dest = (case pget h of Some x \<Rightarrow> x | None \<Rightarrow> dest)"

section \<open>\<open>parameter_update\<close> (lines 515-615)\<close>

text \<open>
  The body is a straight line of \<open>param_get\<close> calls. The first block reads the twelve
  quadrotor parameters into their fields. Every later block reads a gain into the
  local \<open>float v\<close> and stores \<open>v\<close> in one diagonal entry of a gain matrix; \<open>v\<close> is declared
  without an initial value, so the blocks pass it along with the cache and the whole
  routine takes its indeterminate first value \<open>v0\<close> as an argument. Line 581 writes
  \<open>_param_handles\<close> for \<open>_params_handles\<close>; it is read as the latter.
\<close>

definition quadrotor_parameters ::
  "'h param_handles \<Rightarrow> ('h \<Rightarrow> real option) \<Rightarrow> param_cache \<Rightarrow> param_cache" where
  "quadrotor_parameters hs pget p =
     p\<lparr>q_mass := param_get pget (q_mass_h hs) (q_mass p),
       q_ix_moment := param_get pget (q_ix_moment_h hs) (q_ix_moment p),
       q_iy_moment := param_get pget (q_iy_moment_h hs) (q_iy_moment p),
       q_iz_moment := param_get pget (q_iz_moment_h hs) (q_iz_moment p),
       q_arm_length := param_get pget (q_arm_length_h hs) (q_arm_length p),
       q_drag_coeff := param_get pget (q_drag_coeff_h hs) (q_drag_coeff p),
       q_xlin_drag := param_get pget (q_xlin_drag_h hs) (q_xlin_drag p),
       q_ylin_drag := param_get pget (q_ylin_drag_h hs) (q_ylin_drag p),
       q_zlin_drag := param_get pget (q_zlin_drag_h hs) (q_zlin_drag p),
       q_xrot_drag := param_get pget (q_xrot_drag_h hs) (q_xrot_drag p),
       q_yrot_drag := param_get pget (q_yrot_drag_h hs) (q_yrot_drag p),
       q_zrot_drag := param_get pget (q_zrot_drag_h hs) (q_zrot_drag p)\<rparr>"

definition A1_gains ::
  "'h param_handles \<Rightarrow> ('h \<Rightarrow> real option) \<Rightarrow> param_cache \<times> real \<Rightarrow> param_cache \<times> real" where
  "A1_gains hs pget s =
     (let (p, v) = s;
          v = param_get pget (x_gain_h hs) v;
          p = p\<lparr>A1_gain := set_entry (A1_gain p) 0 0 v\<rparr>;
          v = param_get pget (y_gain_h hs) v;
          p = p\<lparr>A1_gain := set_entry (A1_gain p) 1 1 v\<rparr>
      in (p, v))"

definition A2_gains ::
  "'h param_handles \<Rightarrow> ('h \<Rightarrow> real option) \<Rightarrow> param_cache \<times> real \<Rightarrow> param_cache \<times> real" where
  "A2_gains hs pget s =
     (let (p, v) = s;
          v = param_get pget (x_vel_gain_h hs) v;
          p = p\<lparr>A2_gain := set_entry (A2_gain p) 0 0 v\<rparr>;
          v = param_get pget (y_vel_gain_h hs) v;
          p = p\<lparr>A2_gain := set_entry (A2_gain p) 1 1 v\<rparr>
      in (p, v))"

definition A3_gains ::
  "'h param_handles \<Rightarrow> ('h \<Rightarrow> real option) \<Rightarrow> param_cache \<times> real \<Rightarrow> param_cache \<times> real" where
  "A3_gains hs pget s =
     (let (p, v) = s;
          v = param_get pget (phi_gain_h hs) v;
          p = p\<lparr>A3_gain := set_entry (A3_gain p) 0 0 v\<rparr>;
          v = param_get pget (theta_gain_h hs) v;
          p = p\<lparr>A3_gain := set_entry (A3_gain p) 1 1 v\<rparr>
      in (p, v))"

definition A4_gains ::
  "'h param_handles \<Rightarrow> ('h \<Rightarrow> real option) \<Rightarrow> param_cache \<times> real \<Rightarrow> param_cache \<times> real" where
  "A4_gains hs pget s =
     (let (p, v) = s;
          v = param_get pget (phi_vel_gain_h hs) v;
          p = p\<lparr>A4_gain := set_entry (A4_gain p) 0 0 v\<rparr>;
          v = param_get pget (theta_vel_gain_h hs) v;
          p = p\<lparr>A4_gain := set_entry (A4_gain p) 1 1 v\<rparr>
      in (p, v))"

definition A5_gains ::
  "'h param_handles \<Rightarrow> ('h \<Rightarrow> real option) \<Rightarrow> param_cache \<times> real \<Rightarrow> param_cache \<times> real" where
  "A5_gains hs pget s =
     (let (p, v) = s;
          v = param_get pget (psi_gain_h hs) v;
          p = p\<lparr>A5_gain := set_entry (A5_gain p) 0 0 v\<rparr>;
          v = param_get pget (z_gain_h hs) v;
          p = p\<lparr>A5_gain := set_entry (A5_gain p) 1 1 v\<rparr>
      in (p, v))"

definition A6_gains ::
  "'h param_handles \<Rightarrow> ('h \<Rightarrow> real option) \<Rightarrow> param_cache \<times> real \<Rightarrow> param_cache \<times> real" where
  "A6_gains hs pget s =
     (let (p, v) = s;
          v = param_get pget (psi_vel_gain_h hs) v;
          p = p\<lparr>A6_gain := set_entry (A6_gain p) 0 0 v\<rparr>;
          v = param_get pget (z_vel_gain_h hs) v;
          p = p\<lparr>A6_gain := set_entry (A6_gain p) 1 1 v\<rparr>
      in (p, v))"

definition A7_gains ::
  "'h param_handles \<Rightarrow> ('h \<Rightarrow> real option) \<Rightarrow> param_cache \<times> real \<Rightarrow> param_cache \<times> real" where
  "A7_gains hs pget s =
     (let (p, v) = s;
          v = param_get pget (f1_gain_h hs) v;
          p = p\<lparr>A7_gain := set_entry (A7_gain p) 0 0 v\<rparr>;
          v = param_get pget (f2_gain_h hs) v;
          p = p\<lparr>A7_gain := set_entry (A7_gain p) 1 1 v\<rparr>;
          v = param_get pget (f3_gain_h hs) v;
          p = p\<lparr>A7_gain := set_entry (A7_gain p) 2 2 v\<rparr>;
          v = param_get pget (f4_gain_h hs) v;
          p = p\<lparr>A7_gain := set_entry (A7_gain p) 3 3 v\<rparr>
      in (p, v))"

definition parameter_update ::
  "'h param_handles \<Rightarrow> ('h \<Rightarrow> real option) \<Rightarrow> real \<Rightarrow> param_cache \<Rightarrow> param_cache" where
  "parameter_update hs pget v0 p =
     fst (A7_gains hs pget (A6_gains hs pget (A5_gains hs pget (A4_gains hs pget
       (A3_gains hs pget (A2_gains hs pget (A1_gains hs pget
         (quadrotor_parameters hs pget p, v0))))))))"

section \<open>The constructor (lines 374-489)\<close>

text \<open>
  The constructor runs on the raw storage of the object, \<open>raw\<close>: a member that it does
  not write keeps the value found there. It clears the circuit-breaker flag, zeroes
  \<open>nlibs_rate_max\<close>, the seven gain matrices and the working vectors, binds every
  parameter handle with \<open>param_find\<close>, and ends with a call of the parameter refresh.
  That call is written \<open>parameters_update()\<close>, the name of the declaration at line 295,
  while the definition at line 515 is named \<open>parameter_update\<close>; the call is taken to
  run the routine that is defined.
\<close>

definition find_handles :: "(string \<Rightarrow> 'h) \<Rightarrow> 'h param_handles" where
  "find_handles pfind =
     \<lparr>q_mass_h = pfind ''NLIBSC_QMASS'',
      q_ix_moment_h = pfind ''NLIBSC_QIX_MOMENT'',
      q_iy_moment_h = pfind ''NLIBSC_QIY_MOMENT'',
      q_iz_moment_h = pfind ''NLIBSC_QIZ_MOMENT'',
      q_arm_length_h = pfind ''NLIBSC_QARM_LENGTH'',
      q_drag_coeff_h = pfind ''NLIBSC_QDRAG_COEFF'',
      q_xlin_drag_h = pfind ''NLIBSC_QXLIN_DRAG'',
      q_ylin_drag_h = pfind ''NLIBSC_QYLIN_DRAG'',
      q_zlin_drag_h = pfind ''NLIBSC_QZLIN_DRAG'',
      q_xrot_drag_h = pfind ''NLIBSC_QXROT_DRAG'',
      q_yrot_drag_h = pfind ''NLIBSC_QYROT_DRAG'',
      q_zrot_drag_h = pfind ''NLIBSC_QZROT_DRAG'',
      q_rotor_radius_h = pfind ''NLIBSC_QROTOR_RADIUS'',
      q_rotor_twist_angle_h = pfind ''NLIBSC_QROTOR_TWIST_ANGLE'',
      q_rotor_root_angle_h = pfind ''NLIBSC_QROTOR_ROOT_ANGLE'',
      q_motor_cst_h = pfind ''NLIBSC_QMOTOR_CST'',
      thr_min_h = pfind ''NLIBSC_THR_MIN'',
      thr_max_h = pfind ''NLIBSC_THR_MAX'',
      x_gain_h = pfind ''NLIBSC_X_GAIN'',
      y_gain_h = pfind ''NLIBSC_Y_GAIN'',
      x_vel_gain_h = pfind ''NLIBSC_X_VEL_GAIN'',
      y_vel_gain_h = pfind ''NLIBSC_Y_VEL_GAIN'',
      phi_gain_h = pfind ''NLIBSC_PHI_GAIN'',
      theta_gain_h = pfind ''NLIBSC_THETA_GAIN'',
      phi_vel_gain_h = pfind ''NLIBSC_PHI_RATE_GAIN'',
      theta_vel_gain_h = pfind ''NLIBSC_THETA_RATE_GAIN'',
      psi_gain_h = pfind ''NLIBSC_PSI_GAIN'',
      z_gain_h = pfind ''NLIBSC_Z_GAIN'',
      psi_vel_gain_h = pfind ''NLIBSC_PSI_RATE_GAIN'',
      z_vel_gain_h = pfind ''NLIBSC_Z_VEL_GAIN'',
      f1_gain_h = pfind ''NLIBSC_F1_GAIN'',
      f2_gain_h = pfind ''NLIBSC_F2_GAIN'',
      f3_gain_h = pfind ''NLIBSC_F3_GAIN'',
      f4_gain_h = pfind ''NLIBSC_F4_GAIN'',
      xy_vel_max_h = pfind ''NLIBSC_ROLL_RATE_MAX'',
      xy_ff_h = pfind ''NLIBSC_PITCH_RATE_MAX'',
      tilt_max_air_h = pfind ''NLIBSC_YAW_RATE_MAX'',
      tilt_max_land_h = pfind ''NLIBSC_XY_VEL_MAX'',
      land_speed_h = pfind ''NLIBSC_XY_FF'',
      man_roll_max_h = pfind ''NLIBSC_TILTMAX_AIR'',
      man_pitch_max_h = pfind ''NLIBSC_TILTMAX_LND'',
      man_yaw_max_h = pfind ''NLIBSC_LAND_SPEED''\<rparr>"

definition zero_gains :: "param_cache \<Rightarrow> param_cache" where
  "zero_gains p =
     p\<lparr>nlibs_rate_max := zero_v,
       A1_gain := zero_m, A2_gain := zero_m, A3_gain := zero_m, A4_gain := zero_m,
       A5_gain := zero_m, A6_gain := zero_m, A7_gain := zero_m\<rparr>"

definition constructor ::
  "(string \<Rightarrow> 'h) \<Rightarrow> ('h \<Rightarrow> real option) \<Rightarrow> real \<Rightarrow> 'h controller \<Rightarrow> 'h controller" where
  "constructor pfind pget v0 raw =
     (let c = raw\<lparr>actuators_0_circuit_breaker_enabled := False\<rparr>;
          c = c\<lparr>params := zero_gains (params c)\<rparr>;
          c = c\<lparr>pos := zero_v, pos_sp := zero_v, vel := zero_v, vel_sp := zero_v,
                vel_prev := zero_v, vel_ff := zero_v, sp_move_rate := zero_v,
                rates_prev := zero_v, rates_sp := zero_v, rates_int := zero_v,
                att_control := zero_v\<rparr>;
          c = c\<lparr>params_handles := find_handles pfind\<rparr>
      in c\<lparr>params := parameter_update (params_handles c) pget v0 (params c)\<rparr>)"

text \<open>
  A call of the refresh on the object, and a run of such calls. Each call sees the
  parameter store as it is at that moment and has its own indeterminate local \<open>v\<close>.
\<close>

definition parameter_update_call ::
  "('h \<Rightarrow> real option) \<Rightarrow> real \<Rightarrow> 'h controller \<Rightarrow> 'h controller" where
  "parameter_update_call pget v0 c =
     c\<lparr>params := parameter_update (params_handles c) pget v0 (params c)\<rparr>"

primrec refreshes ::
  "(('h \<Rightarrow> real option) \<times> real) list \<Rightarrow> 'h controller \<Rightarrow> 'h controller" where
  "refreshes [] c = c"
| "refreshes (r # rs) c = refreshes rs (parameter_update_call (fst r) (snd r) c)"

section \<open>Properties of the cached parameters\<close>

text \<open>
  A gain matrix of dimension \<open>n\<close> is diagonal when every entry off the diagonal is zero,
  and has a non-negative diagonal when no diagonal entry is below zero. \<open>A1\<close> to \<open>A6\<close>
  are \<open>2 \<times> 2\<close>, \<open>A7\<close> is \<open>4 \<times> 4\<close>.
\<close>

definition diagonal :: "nat \<Rightarrow> matrix \<Rightarrow> bool" where
  "diagonal n m = (\<forall>i \<in> set [0..<n]. \<forall>j \<in> set [0..<n]. i \<noteq> j \<longrightarrow> m i j = 0)"

definition nonneg_diagonal :: "nat \<Rightarrow> matrix \<Rightarrow> bool" where
  "nonneg_diagonal n m = (\<forall>i \<in> set [0..<n]. 0 \<le> m i i)"

definition gains_diagonal :: "param_cache \<Rightarrow> bool" where
  "gains_diagonal p \<longleftrightarrow>
     diagonal 2 (A1_gain p) \<and> diagonal 2 (A2_gain p) \<and> diagonal 2 (A3_gain p) \<and>
     diagonal 2 (A4_gain p) \<and> diagonal 2 (A5_gain p) \<and> diagonal 2 (A6_gain p) \<and>
     diagonal 4 (A7_gain p)"

definition gains_nonneg :: "param_cache \<Rightarrow> bool" where
  "gains_nonneg p \<longleftrightarrow>
     nonneg_diagonal 2 (A1_gain p) \<and> nonneg_diagonal 2 (A2_gain p) \<and>
     nonneg_diagonal 2 (A3_gain p) \<and> nonneg_diagonal 2 (A4_gain p) \<and>
     nonneg_diagonal 2 (A5_gain p) \<and> nonneg_diagonal 2 (A6_gain p) \<and>
     nonneg_diagonal 4 (A7_gain p)"

text \<open>
  The physical constants: the twelve that \<open>parameter_update\<close> loads (mass, moments of
  inertia, arm length, drag coefficients), and with them the rotor geometry and the
  motor constant.
\<close>

definition loaded_constants_positive :: "param_cache \<Rightarrow> bool" where
  "loaded_constants_positive p \<longleftrightarrow>
     0 < q_mass p \<and> 0 < q_ix_moment p \<and> 0 < q_iy_moment p \<and> 0 < q_iz_moment p \<and>
     0 < q_arm_length p \<and> 0 < q_drag_coeff p \<and>
     0 < q_xlin_drag p \<and> 0 < q_ylin_drag p \<and> 0 < q_zlin_drag p \<and>
     0 < q_xrot_drag p \<and> 0 < q_yrot_drag p \<and> 0 < q_zrot_drag p"

definition physical_constants_positive :: "param_cache \<Rightarrow> bool" where
  "physical_constants_positive p \<longleftrightarrow>
     loaded_constants_positive p \<and>
     0 < q_rotor_radius p \<and> 0 < q_rotor_twist_angle p \<and> 0 < q_rotor_root_angle p \<and>
     0 < q_motor_cst p"

text \<open>
  The handles that \<open>parameter_update\<close> passes to \<open>param_get\<close>, and what the store
  answers for a list of handles: every read succeeds with a positive (non-negative)
  value.
\<close>

definition quadrotor_handles :: "'h param_handles \<Rightarrow> 'h list" where
  "quadrotor_handles hs =
     [q_mass_h hs, q_ix_moment_h hs, q_iy_moment_h hs, q_iz_moment_h hs,
      q_arm_length_h hs, q_drag_coeff_h hs, q_xlin_drag_h hs, q_ylin_drag_h hs,
      q_zlin_drag_h hs, q_xrot_drag_h hs, q_yrot_drag_h hs, q_zrot_drag_h hs]"

definition gain_handles :: "'h param_handles \<Rightarrow> 'h list" where
  "gain_handles hs =
     [x_gain_h hs, y_gain_h hs, x_vel_gain_h hs, y_vel_gain_h hs,
      phi_gain_h hs, theta_gain_h hs, phi_vel_gain_h hs, theta_vel_gain_h hs,
      psi_gain_h hs, z_gain_h hs, psi_vel_gain_h hs, z_vel_gain_h hs,
      f1_gain_h hs, f2_gain_h hs, f3_gain_h hs, f4_gain_h hs]"

definition reads_positive :: "('h \<Rightarrow> real option) \<Rightarrow> 'h list \<Rightarrow> bool" where
  "reads_positive pget hl =
     list_all (\<lambda>h. case pget h of Some x \<Rightarrow> 0 < x | None \<Rightarrow> False) hl"

definition reads_nonneg :: "('h \<Rightarrow> real option) \<Rightarrow> 'h list \<Rightarrow> bool" where
  "reads_nonneg pget hl =
     list_all (\<lambda>h. case pget h of Some x \<Rightarrow> 0 \<le> x | None \<Rightarrow> False) hl"

section \<open>Concrete inputs\<close>

text \<open>
  Object storage filled with zeros, a parameter library whose handle of a name is the
  name itself, a store that answers \<open>1\<close> for every name and a store that answers
  \<open>-1\<close> for every name.
\<close>

definition cache_zero :: param_cache where
  "cache_zero =
     \<lparr>q_mass = 0, q_ix_moment = 0, q_iy_moment = 0, q_iz_moment = 0, q_arm_length = 0,
      q_drag_coeff = 0, q_xlin_drag = 0, q_ylin_drag = 0, q_zlin_drag = 0,
      q_xrot_drag = 0, q_yrot_drag = 0, q_zrot_drag = 0, q_rotor_radius = 0,
      q_rotor_twist_angle = 0, q_rotor_root_angle = 0, q_motor_cst = 0,
      thr_min = 0, thr_max = 0, tilt_max_air = 0, land_speed = 0, tilt_max_land = 0,
      man_roll_max = 0, man_pitch_max = 0, man_yaw_max = 0, yaw_ff = 0,
      roll_rate_max = 0, pitch_rate_max = 0, yaw_rate_max = 0,
      nlibs_rate_max = (0, 0, 0),
      A1_gain = (\<lambda>i j. 0), A2_gain = (\<lambda>i j. 0), A3_gain = (\<lambda>i j. 0),
      A4_gain = (\<lambda>i j. 0), A5_gain = (\<lambda>i j. 0), A6_gain = (\<lambda>i j. 0),
      A7_gain = (\<lambda>i j. 0)\<rparr>"

definition raw_zero :: "string controller" where
  "raw_zero =
     \<lparr>actuators_0_circuit_breaker_enabled = False,
      params_handles = find_handles (\<lambda>n. []),
      params = cache_zero,
      reset_pos_sp = False, reset_alt_sp = False, reset_att_sp = False,
      reset_yaw_s = False, mode_auto = False,
      pos = (0, 0, 0), pos_sp = (0, 0, 0), vel = (0, 0, 0), vel_sp = (0, 0, 0),
      vel_prev = (0, 0, 0), vel_ff = (0, 0, 0), sp_move_rate = (0, 0, 0),
      rates_prev = (0, 0, 0), rates_sp = (0, 0, 0), rates_int = (0, 0, 0),
      att_control = (0, 0, 0), thrust_sp = 0\<rparr>"

definition name_handle :: "string \<Rightarrow> string" where
  "name_handle n = n"

definition store_ones :: "string \<Rightarrow> real option" where
  "store_ones n = Some 1"

definition store_minus_ones :: "string \<Rightarrow> real option" where
  "store_minus_ones n = Some (- 1)"

section \<open>Routines that the source declares and does not define\<close>

text \<open>
  The class declares \<open>control_update\<close>, \<open>poll_subscriptions\<close>, \<open>scale_control\<close>,
  \<open>update_ref\<close>, \<open>reset_pos_sp\<close>, \<open>reset_alt_sp\<close>, \<open>limit_pos_sp_offset\<close>,
  \<open>control_manual\<close>, \<open>control_offboard\<close>, \<open>cross_sphere_line\<close>, \<open>control_auto\<close>,
  \<open>select_alt\<close> and \<open>task_main\<close> (lines 300-359); the file ends after
  \<open>parameter_update\<close> and defines none of them. Two of them are modelled below from the
  words of the specification, on the members the class declares. The vector operations
  are those of \<open>math::Vector<3>\<close>.
\<close>

fun add_v :: "vector3 \<Rightarrow> vector3 \<Rightarrow> vector3" where
  "add_v (ax, ay, az) (bx, by, bz) = (ax + bx, ay + by, az + bz)"

fun sub_v :: "vector3 \<Rightarrow> vector3 \<Rightarrow> vector3" where
  "sub_v (ax, ay, az) (bx, by, bz) = (ax - bx, ay - by, az - bz)"

fun scale_v :: "real \<Rightarrow> vector3 \<Rightarrow> vector3" where
  "scale_v k (x, y, z) = (k * x, k * y, k * z)"

fun emult_v :: "vector3 \<Rightarrow> vector3 \<Rightarrow> vector3" where
  "emult_v (ax, ay, az) (bx, by, bz) = (ax * bx, ay * by, az * bz)"

fun length_v :: "vector3 \<Rightarrow> real" where
  "length_v (x, y, z) = sqrt (x * x + y * y + z * z)"

text \<open>
  Modelled from the spec: the body of \<open>limit_pos_sp_offset\<close>, declared at line 326 (``Check
  if position setpoint is too far from current position and adjust it if needed'') and
  not defined. Section 4.3 of the specification: ``if the distance between the newly
  computed setpoint and the current position exceeds a configured maximum, the setpoint
  is clamped along the direction vector to that maximum distance''. The configured
  maximum is the argument \<open>max_offs\<close>; the routine reads \<open>_pos\<close> and rewrites \<open>_pos_sp\<close>.
\<close>

definition limit_pos_sp_offset :: "real \<Rightarrow> 'h controller \<Rightarrow> 'h controller" where
  "limit_pos_sp_offset max_offs c =
     (let offs = sub_v (pos_sp c) (pos c);
          d = length_v offs
      in if d > max_offs then c\<lparr>pos_sp := add_v (pos c) (scale_v (max_offs / d) offs)\<rparr>
         else c)"

text \<open>
  The limit of the rate integral, \<open>#define RATES_I_LIMIT 0.3f\<close> (line 104), and the
  clamp of a value and of each component of a vector to a symmetric bound
  (\<open>math::constrain\<close> of the maths library).
\<close>

definition RATES_I_LIMIT :: real where
  "RATES_I_LIMIT = 0.3"

definition constrain :: "real \<Rightarrow> real \<Rightarrow> real \<Rightarrow> real" where
  "constrain val lo hi = (if val < lo then lo else if val > hi then hi else val)"

fun constrain_v :: "vector3 \<Rightarrow> real \<Rightarrow> vector3" where
  "constrain_v (x, y, z) bound =
     (constrain x (- bound) bound, constrain y (- bound) bound, constrain z (- bound) bound)"

fun within_limit :: "vector3 \<Rightarrow> real \<Rightarrow> bool" where
  "within_limit (x, y, z) bound \<longleftrightarrow>
     - bound \<le> x \<and> x \<le> bound \<and> - bound \<le> y \<and> y \<le> bound \<and> - bound \<le> z \<and> z \<le> bound"

text \<open>
  What one cycle hands to the rate loop: the arming state, the integrator-reset flag,
  the rate setpoint, the measured rate, the integral gain of each axis and the time
  step.
\<close>

record rate_loop_input =
  armed :: bool
  reset_int :: bool
  rate_setpoint :: vector3
  measured_rate :: vector3
  rate_i :: vector3
  dt :: real

text \<open>
  Modelled from the spec: the integral part of the rate loop, which the source does not
  contain; it declares the state \<open>_rates_int\<close> (line 285), zeroes it in the constructor
  and defines \<open>RATES_I_LIMIT\<close>. Section 4.5 of the specification: the rate loop
  ``computes rate error, [...] accumulates an integral term clamped to
  \<open>\<plusminus>RATES_I_LIMIT\<close>, resets the integral to zero whenever the vehicle disarms or a mode
  reset flag is set [...]. Must be robust to \<open>dt == 0\<close> or negative (clock glitch): skip
  integration for that cycle''. The specification names no integral gain; \<open>rate_i\<close> is
  an input, and \<open>(1, 1, 1)\<close> gives the plain integral of the rate error.
\<close>

definition rate_loop_integrate :: "rate_loop_input \<Rightarrow> 'h controller \<Rightarrow> 'h controller" where
  "rate_loop_integrate u c =
     (if \<not> armed u \<or> reset_int u then c\<lparr>rates_int := zero_v\<rparr>
      else if dt u \<le> 0 then c
      else
        let rates_err = sub_v (rate_setpoint u) (measured_rate u)
        in c\<lparr>rates_int :=
               constrain_v
                 (add_v (rates_int c) (scale_v (dt u) (emult_v (rate_i u) rates_err)))
                 RATES_I_LIMIT\<rparr>)"

primrec rate_loop_run :: "rate_loop_input list \<Rightarrow> 'h controller \<Rightarrow> 'h controller" where
  "rate_loop_run [] c = c"
| "rate_loop_run (u # us) c = rate_loop_run us (rate_loop_integrate u c)"

text \<open>
  Inputs for the two routines: a setpoint five metres from the position, a cycle that
  pushes every axis of the integral far past the limit, and a cycle in which the
  vehicle is disarmed.
\<close>

definition far_setpoint :: "string controller" where
  "far_setpoint = raw_zero\<lparr>pos_sp := (3, 4, 0)\<rparr>"

definition push_cycle :: rate_loop_input where
  "push_cycle =
     \<lparr>armed = True, reset_int = False, rate_setpoint = (10, - 10, 10),
      measured_rate = (0, 0, 0), rate_i = (1, 1, 1), dt = 1\<rparr>"

definition disarmed_cycle :: rate_loop_input where
  "disarmed_cycle =
     \<lparr>armed = False, reset_int = False, rate_setpoint = (10, - 10, 10),
      measured_rate = (0, 0, 0), rate_i = (1, 1, 1), dt = 1\<rparr>"

section \<open>The parameter refresh: what it writes\<close>

lemmas gains_defs =
  A1_gains_def A2_gains_def A3_gains_def A4_gains_def A5_gains_def A6_gains_def A7_gains_def

lemmas parameter_update_defs =
  parameter_update_def gains_defs quadrotor_parameters_def Let_def split_def

lemma upt_2: "[0..<2] = [0, Suc 0]"
  by (simp add: upt_rec numeral_2_eq_2)

lemma upt_4: "[0..<4] = [0, 1, 2, 3]"
  by (simp add: upt_rec eval_nat_numeral)

text \<open>
  Claim C9. The constructor binds the eight trailing handles of \<open>_params_handles\<close> to
  names that belong to other parameters, three places off: \<open>xy_vel_max\<close> is looked up
  as \<open>NLIBSC_ROLL_RATE_MAX\<close>, \<open>xy_ff\<close> as \<open>NLIBSC_PITCH_RATE_MAX\<close>, \<open>tilt_max_air\<close> as
  \<open>NLIBSC_YAW_RATE_MAX\<close>, \<open>tilt_max_land\<close> as \<open>NLIBSC_XY_VEL_MAX\<close>, \<open>land_speed\<close> as
  \<open>NLIBSC_XY_FF\<close>, \<open>man_roll_max\<close> as \<open>NLIBSC_TILTMAX_AIR\<close>, \<open>man_pitch_max\<close> as
  \<open>NLIBSC_TILTMAX_LND\<close> and \<open>man_yaw_max\<close> as \<open>NLIBSC_LAND_SPEED\<close>. This holds of the
  constructed object whatever the parameter library, the store and the raw storage are.
\<close>

theorem constructor_trailing_handles:
  "(let hs = params_handles (constructor pfind pget v0 raw) in
      xy_vel_max_h hs = pfind ''NLIBSC_ROLL_RATE_MAX'' \<and>
      xy_ff_h hs = pfind ''NLIBSC_PITCH_RATE_MAX'' \<and>
      tilt_max_air_h hs = pfind ''NLIBSC_YAW_RATE_MAX'' \<and>
      tilt_max_land_h hs = pfind ''NLIBSC_XY_VEL_MAX'' \<and>
      land_speed_h hs = pfind ''NLIBSC_XY_FF'' \<and>
      man_roll_max_h hs = pfind ''NLIBSC_TILTMAX_AIR'' \<and>
      man_pitch_max_h hs = pfind ''NLIBSC_TILTMAX_LND'' \<and>
      man_yaw_max_h hs = pfind ''NLIBSC_LAND_SPEED'')"
  by (simp add: constructor_def find_handles_def Let_def)

text \<open>
  Claim C10. Every run of \<open>parameter_update\<close> leaves \<open>thr_min\<close>, \<open>thr_max\<close>,
  \<open>tilt_max_air\<close>, \<open>tilt_max_land\<close>, \<open>land_speed\<close>, \<open>man_roll_max\<close>, \<open>man_pitch_max\<close>,
  \<open>man_yaw_max\<close>, \<open>yaw_ff\<close>, the three rate maxima (and the vector \<open>nlibs_rate_max\<close>),
  the rotor geometry and the motor constant as they were. It writes only the mass,
  inertia, arm-length and drag fields and the diagonal of the gain matrices: every
  off-diagonal entry of \<open>A1\<close> to \<open>A7\<close> is as before.
\<close>

theorem parameter_update_frame:
  "(let p' = parameter_update hs pget v0 p in
     thr_min p' = thr_min p \<and> thr_max p' = thr_max p \<and>
     tilt_max_air p' = tilt_max_air p \<and> tilt_max_land p' = tilt_max_land p \<and>
     land_speed p' = land_speed p \<and>
     man_roll_max p' = man_roll_max p \<and> man_pitch_max p' = man_pitch_max p \<and>
     man_yaw_max p' = man_yaw_max p \<and> yaw_ff p' = yaw_ff p \<and>
     roll_rate_max p' = roll_rate_max p \<and> pitch_rate_max p' = pitch_rate_max p \<and>
     yaw_rate_max p' = yaw_rate_max p \<and> nlibs_rate_max p' = nlibs_rate_max p \<and>
     q_rotor_radius p' = q_rotor_radius p \<and>
     q_rotor_twist_angle p' = q_rotor_twist_angle p \<and>
     q_rotor_root_angle p' = q_rotor_root_angle p \<and>
     q_motor_cst p' = q_motor_cst p \<and>
     (\<forall>i j. i \<noteq> j \<longrightarrow>
        A1_gain p' i j = A1_gain p i j \<and> A2_gain p' i j = A2_gain p i j \<and>
        A3_gain p' i j = A3_gain p i j \<and> A4_gain p' i j = A4_gain p i j \<and>
        A5_gain p' i j = A5_gain p i j \<and> A6_gain p' i j = A6_gain p i j \<and>
        A7_gain p' i j = A7_gain p i j))"
  by (simp add: parameter_update_defs set_entry_def)

theorem parameter_update_frame_witness:
  "(0::nat) \<noteq> 1 \<and>
   A7_gain (parameter_update (find_handles name_handle) store_ones 0 cache_zero) 0 1
     = A7_gain cache_zero 0 1 \<and>
   thr_min (parameter_update (find_handles name_handle) store_ones 0 cache_zero)
     = thr_min cache_zero"
  using parameter_update_frame [of "find_handles name_handle" store_ones 0 cache_zero]
  by (simp add: Let_def)

text \<open>
  Claim C3 says that the refresh re-reads every named parameter, the limits, the rotor
  geometry and the motor constant among them. The routine has no \<open>param_get\<close> for them.
  With a store that holds \<open>1\<close> for every name and object storage of zeros, the
  constructor and one more refresh leave \<open>thr_min\<close>, \<open>thr_max\<close> and \<open>q_motor_cst\<close> at
  \<open>0\<close>, while the store holds \<open>1\<close> under the handles the constructor bound for them;
  \<open>q_mass\<close>, which the routine does read, is \<open>1\<close>.
\<close>

theorem refresh_leaves_limits_stale:
  "(let c = parameter_update_call store_ones 0
              (constructor name_handle store_ones 0 raw_zero) in
      store_ones (thr_min_h (params_handles c)) = Some 1 \<and> thr_min (params c) = 0 \<and>
      store_ones (thr_max_h (params_handles c)) = Some 1 \<and> thr_max (params c) = 0 \<and>
      store_ones (q_motor_cst_h (params_handles c)) = Some 1 \<and> q_motor_cst (params c) = 0 \<and>
      store_ones (q_mass_h (params_handles c)) = Some 1 \<and> q_mass (params c) = 1)"
  by (simp add: parameter_update_call_def constructor_def zero_gains_def raw_zero_def
      cache_zero_def store_ones_def parameter_update_defs param_get_def)

section \<open>The parameter refresh: signs and the diagonal form\<close>

lemma param_get_pos:
  "(case pget h of Some x \<Rightarrow> 0 < x | None \<Rightarrow> False) \<Longrightarrow> 0 < param_get pget h d"
  by (simp add: param_get_def split: option.splits)

lemma param_get_nonneg:
  "(case pget h of Some x \<Rightarrow> 0 \<le> x | None \<Rightarrow> False) \<Longrightarrow> 0 \<le> param_get pget h d"
  by (simp add: param_get_def split: option.splits)

lemma parameter_update_diagonal:
  "gains_diagonal p \<Longrightarrow> gains_diagonal (parameter_update hs pget v0 p)"
  by (simp add: gains_diagonal_def diagonal_def upt_2 upt_4 parameter_update_defs set_entry_def)

lemma parameter_update_positive:
  "reads_positive pget (quadrotor_handles hs) \<Longrightarrow>
   loaded_constants_positive (parameter_update hs pget v0 p)"
  by (simp add: reads_positive_def quadrotor_handles_def loaded_constants_positive_def
      parameter_update_defs param_get_pos)

lemma parameter_update_nonneg:
  "reads_nonneg pget (gain_handles hs) \<Longrightarrow> gains_nonneg (parameter_update hs pget v0 p)"
  by (simp add: reads_nonneg_def gain_handles_def gains_nonneg_def nonneg_diagonal_def
      upt_2 upt_4 parameter_update_defs param_get_nonneg set_entry_def)

lemma zero_gains_diagonal: "gains_diagonal (zero_gains p)"
  by (simp add: gains_diagonal_def diagonal_def zero_gains_def zero_m_def)

lemma constructor_diagonal: "gains_diagonal (params (constructor pfind pget v0 raw))"
  by (simp add: constructor_def Let_def parameter_update_diagonal zero_gains_diagonal)

lemma refreshes_diagonal:
  "gains_diagonal (params c) \<Longrightarrow> gains_diagonal (params (refreshes rs c))"
proof (induction rs arbitrary: c)
  case Nil
  then show ?case by simp
next
  case (Cons r rs)
  have "gains_diagonal (params (parameter_update_call (fst r) (snd r) c))"
    using Cons.prems by (simp add: parameter_update_call_def parameter_update_diagonal)
  then show ?case
    using Cons.IH by simp
qed

text \<open>
  Claim C4 as stated: after every refresh all physical constants are strictly positive
  and the gain matrices are diagonal with a non-negative diagonal. The refresh copies
  what the store holds and checks no sign: with a store that holds \<open>-1\<close> for every name,
  the mass and the entry \<open>A1(0,0)\<close> are \<open>-1\<close> after the constructor and one more refresh.
\<close>

theorem refresh_signs_unchecked:
  "(let p' = params (parameter_update_call store_minus_ones 0
                (constructor name_handle store_minus_ones 0 raw_zero)) in
      q_mass p' = - 1 \<and> A1_gain p' 0 0 = - 1 \<and>
      \<not> physical_constants_positive p' \<and> \<not> gains_nonneg p')"
  by (simp add: parameter_update_call_def constructor_def zero_gains_def raw_zero_def
      cache_zero_def store_minus_ones_def parameter_update_defs param_get_def
      physical_constants_positive_def loaded_constants_positive_def gains_nonneg_def
      nonneg_diagonal_def upt_2 set_entry_def)

text \<open>
  Claim C4, amended. A refresh keeps the gain matrices diagonal, and they are diagonal
  after the constructor and any run of refreshes that follows it, whatever the store
  holds. The twelve constants that the refresh loads are strictly positive after it
  when the store answers every one of their reads with a positive value, and the
  diagonal gain entries are non-negative after it when the store answers every gain
  read with a non-negative value.
\<close>

theorem refresh_diagonal_and_store_signs:
  "(gains_diagonal p \<longrightarrow> gains_diagonal (parameter_update hs pget v0 p)) \<and>
   (reads_positive pget (quadrotor_handles hs) \<longrightarrow>
      loaded_constants_positive (parameter_update hs pget v0 p)) \<and>
   (reads_nonneg pget (gain_handles hs) \<longrightarrow> gains_nonneg (parameter_update hs pget v0 p)) \<and>
   gains_diagonal (params (refreshes rs (constructor pfind pget' v0' raw)))"
  by (simp add: parameter_update_diagonal parameter_update_positive parameter_update_nonneg
      refreshes_diagonal constructor_diagonal)

theorem refresh_diagonal_and_store_signs_witness:
  "gains_diagonal cache_zero \<and>
   reads_positive store_ones (quadrotor_handles (find_handles name_handle)) \<and>
   reads_nonneg store_ones (gain_handles (find_handles name_handle)) \<and>
   gains_diagonal (parameter_update (find_handles name_handle) store_ones 0 cache_zero) \<and>
   loaded_constants_positive
     (parameter_update (find_handles name_handle) store_ones 0 cache_zero) \<and>
   gains_nonneg (parameter_update (find_handles name_handle) store_ones 0 cache_zero)"
proof -
  have d: "gains_diagonal cache_zero"
    by (simp add: gains_diagonal_def diagonal_def cache_zero_def)
  have r: "reads_positive store_ones (quadrotor_handles (find_handles name_handle))"
    by (simp add: reads_positive_def quadrotor_handles_def store_ones_def)
  have n: "reads_nonneg store_ones (gain_handles (find_handles name_handle))"
    by (simp add: reads_nonneg_def gain_handles_def store_ones_def)
  show ?thesis
    using d r n
      refresh_diagonal_and_store_signs
        [of cache_zero "find_handles name_handle" store_ones 0 "[]" name_handle store_ones 0
          raw_zero]
    by simp
qed

section \<open>The position-setpoint limit\<close>

lemma length_scale_v: "length_v (scale_v k v) = \<bar>k\<bar> * length_v v"
proof (cases v)
  case (fields x y z)
  have "k * x * (k * x) + k * y * (k * y) + k * z * (k * z) = k * k * (x * x + y * y + z * z)"
    by (simp add: algebra_simps)
  then show ?thesis
    using fields by (simp add: real_sqrt_mult)
qed

lemma sub_add_v: "sub_v (add_v p w) p = w"
  by (cases p, cases w) simp

lemma limit_pos_sp_offset_within:
  assumes "0 \<le> m"
  shows "length_v (sub_v (pos_sp (limit_pos_sp_offset m c)) (pos (limit_pos_sp_offset m c))) \<le> m"
proof (cases "length_v (sub_v (pos_sp c) (pos c)) > m")
  case True
  then have "length_v (sub_v (pos_sp c) (pos c)) > 0"
    using assms by simp
  then show ?thesis
    using True assms by (simp add: limit_pos_sp_offset_def Let_def sub_add_v length_scale_v)
next
  case False
  then show ?thesis
    by (simp add: limit_pos_sp_offset_def Let_def)
qed

lemma limit_pos_sp_offset_fixed:
  "length_v (sub_v (pos_sp c) (pos c)) \<le> m \<Longrightarrow> limit_pos_sp_offset m c = c"
  by (simp add: limit_pos_sp_offset_def Let_def)

lemma sqrt_25: "sqrt 25 = 5"
  using real_sqrt_abs [of 5] by simp

lemma far_setpoint_limited:
  "pos_sp (limit_pos_sp_offset 1 far_setpoint) = (3 / 5, 4 / 5, 0)"
  by (simp add: limit_pos_sp_offset_def far_setpoint_def raw_zero_def sqrt_25 Let_def)

text \<open>
  Claim C7. \<open>limit_pos_sp_offset\<close> is idempotent. A setpoint whose distance from the
  current position is within the configured maximum is left as it is; and for a
  maximum that is not negative, the setpoint that one application produces is such a
  setpoint, so a second application changes nothing.
\<close>

theorem limit_pos_sp_offset_idempotent:
  "(length_v (sub_v (pos_sp c) (pos c)) \<le> m \<longrightarrow> limit_pos_sp_offset m c = c) \<and>
   (0 \<le> m \<longrightarrow>
      limit_pos_sp_offset m (limit_pos_sp_offset m c) = limit_pos_sp_offset m c)"
  using limit_pos_sp_offset_fixed limit_pos_sp_offset_within by blast

theorem limit_pos_sp_offset_idempotent_witness:
  "length_v (sub_v (pos_sp far_setpoint) (pos far_setpoint)) \<le> 5 \<and>
   limit_pos_sp_offset 5 far_setpoint = far_setpoint \<and>
   (0::real) \<le> 1 \<and>
   pos_sp (limit_pos_sp_offset 1 far_setpoint) = (3 / 5, 4 / 5, 0) \<and>
   limit_pos_sp_offset 1 (limit_pos_sp_offset 1 far_setpoint)
     = limit_pos_sp_offset 1 far_setpoint"
proof -
  have near: "length_v (sub_v (pos_sp far_setpoint) (pos far_setpoint)) \<le> 5"
    by (simp add: far_setpoint_def raw_zero_def sqrt_25)
  show ?thesis
    using near far_setpoint_limited limit_pos_sp_offset_idempotent [of far_setpoint 5]
      limit_pos_sp_offset_idempotent [of far_setpoint 1]
    by simp
qed

section \<open>The rate integral\<close>

lemma constrain_v_within: "0 \<le> bound \<Longrightarrow> within_limit (constrain_v v bound) bound"
  by (cases v) (simp add: constrain_def)

lemma rate_loop_integrate_within:
  "within_limit (rates_int c) RATES_I_LIMIT \<Longrightarrow>
   within_limit (rates_int (rate_loop_integrate u c)) RATES_I_LIMIT"
  by (simp add: rate_loop_integrate_def Let_def constrain_v_within zero_v_def RATES_I_LIMIT_def)

lemma rate_loop_run_within:
  "within_limit (rates_int c) RATES_I_LIMIT \<Longrightarrow>
   within_limit (rates_int (rate_loop_run us c)) RATES_I_LIMIT"
  by (induction us arbitrary: c) (simp_all add: rate_loop_integrate_within)

lemma constructor_rates_int: "rates_int (constructor pfind pget v0 raw) = zero_v"
  by (simp add: constructor_def Let_def)

lemma push_cycle_saturates:
  "rates_int (rate_loop_run [push_cycle] (constructor name_handle store_ones 0 raw_zero))
     = (3 / 10, - 3 / 10, 3 / 10)"
  by (simp add: constructor_rates_int rate_loop_integrate_def push_cycle_def zero_v_def
      constrain_def RATES_I_LIMIT_def)

text \<open>
  Claim C2. Starting from the constructed controller, after every sequence of rate-loop
  cycles each component of the rate-error integral lies between \<open>- RATES_I_LIMIT\<close> and
  \<open>RATES_I_LIMIT\<close>; and a cycle in which the vehicle is disarmed leaves the integral at
  exactly zero, whatever it was before.
\<close>

theorem rates_int_clamped_and_reset:
  "within_limit (rates_int (rate_loop_run us (constructor pfind pget v0 raw))) RATES_I_LIMIT \<and>
   (\<not> armed u \<longrightarrow> rates_int (rate_loop_integrate u c) = (0, 0, 0))"
proof -
  have "within_limit (rates_int (constructor pfind pget v0 raw)) RATES_I_LIMIT"
    by (simp add: constructor_rates_int zero_v_def RATES_I_LIMIT_def)
  then have "within_limit (rates_int (rate_loop_run us (constructor pfind pget v0 raw)))
      RATES_I_LIMIT"
    by (rule rate_loop_run_within)
  moreover have "\<not> armed u \<longrightarrow> rates_int (rate_loop_integrate u c) = (0, 0, 0)"
    by (simp add: rate_loop_integrate_def zero_v_def)
  ultimately show ?thesis
    by simp
qed

theorem rates_int_clamped_and_reset_witness:
  "within_limit
     (rates_int (rate_loop_run [push_cycle, push_cycle]
        (constructor name_handle store_ones 0 raw_zero))) RATES_I_LIMIT \<and>
   rates_int (rate_loop_run [push_cycle] (constructor name_handle store_ones 0 raw_zero))
     = (3 / 10, - 3 / 10, 3 / 10) \<and>
   \<not> armed disarmed_cycle \<and>
   rates_int (rate_loop_integrate disarmed_cycle
     (rate_loop_run [push_cycle] (constructor name_handle store_ones 0 raw_zero))) = (0, 0, 0)"
proof -
  have off: "\<not> armed disarmed_cycle"
    by (simp add: disarmed_cycle_def)
  show ?thesis
    using off push_cycle_saturates
      rates_int_clamped_and_reset
        [of "[push_cycle, push_cycle]" name_handle store_ones 0 raw_zero disarmed_cycle
          "rate_loop_run [push_cycle] (constructor name_handle store_ones 0 raw_zero)"]
    by simp
qed

end
